theory Spec2Isabelle
  imports Main "HOL-Library.AList"
begin

section \<open>Data model\<close>

text \<open>
  The backend keeps four tables (users, resumes, resume versions, analytics events) behind
  an object-relational mapper. A table is a list of rows; the session of one request is
  the value of type \<open>database\<close> that a handler receives and returns.
  The model classes themselves are not part of the sources: their columns are the ones
  the handlers read and write. The response schema of the auth router declares the user id
  as a string, the resume handlers take resume ids as integers.
\<close>

datatype SubscriptionType = FREE | ONE_TIME | PRO

datatype ActionType =
  RESUME_UPLOAD | RESUME_ENHANCE | RESUME_ANALYZE | RESUME_DOWNLOAD | COVER_LETTER_GENERATE

text \<open>Values of Python dictionaries (analytics metadata, JSON bodies, token claims).\<close>

datatype pyval = PNone | PBool bool | PInt int | PStr string

type_synonym dict = "(string \<times> pyval) list"

record User =
  u_id :: string
  email :: string
  password :: string
  full_name :: string
  subscription_type :: SubscriptionType
  remaining_enhancements :: int

record Resume =
  r_id :: int
  r_user_id :: string
  original_content :: string
  job_description :: "string option"
  linkedin_url :: "string option"
  enhanced_content :: "string option"
  score :: "int option"
  feedback :: "string option"
  learning_suggestions :: "string option"
  cover_letter :: "string option"
  created_at :: int

record ResumeVersion =
  v_resume_id :: int
  content :: string
  version_number :: int

record Analytics =
  a_user_id :: string
  a_resume_id :: int
  action_type :: ActionType
  metadata :: dict
  a_created_at :: int

record database =
  users :: "User list"
  resumes :: "Resume list"
  versions :: "ResumeVersion list"
  analytics :: "Analytics list"
  next_resume_id :: int

text \<open>
  Exceptions are values. \<open>HTTPException\<close> carries the status code and the detail;
  the detail of a re-raised exception is \<open>str(e)\<close>, kept as the term \<open>Str e\<close>.
  \<open>DecodeError\<close>, \<open>InvalidSignatureError\<close> and \<open>ExpiredSignatureError\<close> are the
  exceptions of the token library, \<open>TypeError\<close> and \<open>AttributeError\<close> are Python's own;
  \<open>OtherError\<close> is any other exception of a collaborator.
\<close>

datatype exn =
    HTTPException nat detail
  | DecodeError
  | InvalidSignatureError
  | ExpiredSignatureError
  | TypeError string
  | AttributeError string
  | OtherError string
and detail = Msg string | Str exn

text \<open>Calls that leave the process: awaited calls of the AI client and queued background tasks.\<close>

datatype effect =
    Task_extract_linkedin_profile string int
  | Task_enhance_resume int "string option"
  | Call_score_resume string "string option"
  | Call_generate_cover_letter string "string option" string string
  | Call_analyze_resume_content string "string option"

text \<open>A bearer token: a payload signed with a key, or a string that is no token at all.\<close>

datatype token = Signed string dict | Malformed string

record Request =
  request_json :: "exn + dict"
  bearer :: "token option"

text \<open>
  The collaborators that the handlers import from modules outside the sources
  (\<open>core.ai\<close>, the password context, the \<open>get_current_user\<close> dependency of package
  \<open>app.api\<close>) and the two helpers that \<open>resume.py\<close> calls without defining them are
  fields of the environment. So is the signing key: \<open>SECRET_KEY\<close> is what
  \<open>os.getenv("JWT_SECRET_KEY")\<close> returns, which is \<open>None\<close> when the variable is not set.
\<close>

record env =
  SECRET_KEY :: "string option"
  pwd_context_verify :: "string \<Rightarrow> string \<Rightarrow> bool"
  pwd_context_hash :: "string \<Rightarrow> string"
  score_resume :: "string \<Rightarrow> string option \<Rightarrow> exn + (int \<times> string \<times> string)"
  generate_cover_letter :: "string \<Rightarrow> string option \<Rightarrow> string \<Rightarrow> string \<Rightarrow> exn + string"
  analyze_resume_content :: "string \<Rightarrow> string option \<Rightarrow> exn + dict"
  is_valid_developer_code :: "pyval option \<Rightarrow> exn + bool"
  api_get_current_user :: "Request \<Rightarrow> database \<Rightarrow> exn + User"

text \<open>
  A handler returns its response (or the exception it raises), the database as committed
  when it ends, and the external calls it made, in order.
\<close>

type_synonym 'a outcome = "(exn + 'a) \<times> database \<times> effect list"

definition response :: "'a outcome \<Rightarrow> exn + 'a" where
  "response out = fst out"

definition db_of :: "'a outcome \<Rightarrow> database" where
  "db_of out = fst (snd out)"

definition effects :: "'a outcome \<Rightarrow> effect list" where
  "effects out = snd (snd out)"

section \<open>Python and query helpers\<close>

text \<open>Truthiness of an optional string: \<open>None\<close> and the empty string are false.\<close>

definition truthy :: "string option \<Rightarrow> bool" where
  "truthy s = (case s of None \<Rightarrow> False | Some t \<Rightarrow> t \<noteq> [])"

text \<open>Truthiness of an optional number: \<open>None\<close> and \<open>0\<close> are false.\<close>

definition truthy_num :: "int option \<Rightarrow> bool" where
  "truthy_num s = (case s of None \<Rightarrow> False | Some n \<Rightarrow> n \<noteq> 0)"

text \<open>\<open>a or b\<close> on optional strings, and with a right operand that is always a string.\<close>

definition py_or :: "string option \<Rightarrow> string option \<Rightarrow> string option" where
  "py_or a b = (if truthy a then a else b)"

definition or_else :: "string option \<Rightarrow> string \<Rightarrow> string" where
  "or_else a b = (case a of None \<Rightarrow> b | Some t \<Rightarrow> if t \<noteq> [] then t else b)"

text \<open>\<open>d.get(k)\<close>: an absent key and a key bound to \<open>None\<close> both give \<open>None\<close>.\<close>

definition dict_get :: "dict \<Rightarrow> string \<Rightarrow> pyval option" where
  "dict_get d k = (case map_of d k of None \<Rightarrow> None | Some PNone \<Rightarrow> None | Some v \<Rightarrow> Some v)"

text \<open>\<open>query.filter(...).first()\<close>, an attribute write on the object it returned followed by
  \<open>commit\<close>, and \<open>db.delete\<close> of that object.\<close>

definition first :: "('a \<Rightarrow> bool) \<Rightarrow> 'a list \<Rightarrow> 'a option" where
  "first P xs = find P xs"

fun update_first :: "('a \<Rightarrow> bool) \<Rightarrow> ('a \<Rightarrow> 'a) \<Rightarrow> 'a list \<Rightarrow> 'a list" where
  "update_first P f [] = []"
| "update_first P f (x # xs) = (if P x then f x # xs else x # update_first P f xs)"

fun delete_first :: "('a \<Rightarrow> bool) \<Rightarrow> 'a list \<Rightarrow> 'a list" where
  "delete_first P [] = []"
| "delete_first P (x # xs) = (if P x then xs else x # delete_first P xs)"

text \<open>\<open>order_by(column.desc())\<close>.\<close>

definition order_by_desc :: "('a \<Rightarrow> int) \<Rightarrow> 'a list \<Rightarrow> 'a list" where
  "order_by_desc f xs = rev (sort_key f xs)"

text \<open>The filter shared by every resume lookup: \<open>Resume.id == resume_id, Resume.user_id == current_user.id\<close>.\<close>

definition resume_filter :: "int \<Rightarrow> string \<Rightarrow> Resume \<Rightarrow> bool" where
  "resume_filter rid uid r = (r_id r = rid \<and> r_user_id r = uid)"

definition query_resume :: "database \<Rightarrow> int \<Rightarrow> string \<Rightarrow> Resume option" where
  "query_resume db rid uid = first (resume_filter rid uid) (resumes db)"

text \<open>The authenticated user is an object of the session: a write to it is flushed to the
  row with its primary key on \<open>commit\<close>.\<close>

definition store_user :: "User \<Rightarrow> User list \<Rightarrow> User list" where
  "store_user u us = map (\<lambda>v. if u_id v = u_id u then u else v) us"

definition not_found :: exn where
  "not_found = HTTPException 404 (Msg ''Resume not found'')"

section \<open>Resume endpoints (\<open>app/api/resume.py\<close>)\<close>

record ResumeCreate =
  rc_content :: string
  rc_job_description :: "string option"
  rc_linkedin_url :: "string option"

record ResumeEnhanceRequest =
  er_resume_id :: int
  er_job_description :: "string option"

record CoverLetterRequest =
  cl_resume_id :: int
  cl_job_description :: "string option"
  cl_company_name :: string
  cl_position :: string

record ResumeScoreResponse =
  sr_score :: "int option"
  sr_feedback :: "string option"
  sr_learning_suggestions :: "string option"

definition upload_resume :: "ResumeCreate \<Rightarrow> User \<Rightarrow> database \<Rightarrow> int \<Rightarrow> Resume outcome" where
  "upload_resume resume_data current_user db now =
    (if subscription_type current_user = FREE then
       (Inl (HTTPException 403
          (Msg ''Free users cannot upload resumes. Please upgrade your subscription.'')), db, [])
     else if subscription_type current_user = ONE_TIME
             \<and> remaining_enhancements current_user \<le> 0 then
       (Inl (HTTPException 403
          (Msg ''No remaining enhancements. Please purchase more or upgrade to Pro.'')), db, [])
     else
       let resume = \<lparr> r_id = next_resume_id db, r_user_id = u_id current_user,
                      original_content = rc_content resume_data,
                      job_description = rc_job_description resume_data,
                      linkedin_url = rc_linkedin_url resume_data,
                      enhanced_content = None, score = None, feedback = None,
                      learning_suggestions = None, cover_letter = None,
                      created_at = now \<rparr>;
           db1 = db \<lparr> resumes := resumes db @ [resume],
                      next_resume_id := next_resume_id db + 1 \<rparr>;
           version = \<lparr> v_resume_id = r_id resume, content = rc_content resume_data,
                       version_number = 1 \<rparr>;
           event = \<lparr> a_user_id = u_id current_user, a_resume_id = r_id resume,
                     action_type = RESUME_UPLOAD,
                     metadata = [(''has_job_description'', PBool (truthy (rc_job_description resume_data))),
                                 (''has_linkedin'', PBool (truthy (rc_linkedin_url resume_data)))],
                     a_created_at = now \<rparr>;
           tasks = (case rc_linkedin_url resume_data of
                      None \<Rightarrow> []
                    | Some url \<Rightarrow> if url \<noteq> [] then [Task_extract_linkedin_profile url (r_id resume)] else []);
           db2 = db1 \<lparr> versions := versions db1 @ [version],
                       analytics := analytics db1 @ [event] \<rparr>
       in (Inr resume, db2, tasks))"

definition enhance_resume_endpoint ::
  "ResumeEnhanceRequest \<Rightarrow> User \<Rightarrow> database \<Rightarrow> int \<Rightarrow> Resume outcome" where
  "enhance_resume_endpoint request current_user db now =
    (case query_resume db (er_resume_id request) (u_id current_user) of
       None \<Rightarrow> (Inl not_found, db, [])
     | Some resume \<Rightarrow>
       if subscription_type current_user = FREE then
         (Inl (HTTPException 403
            (Msg ''Free users cannot enhance resumes. Please upgrade your subscription.'')), db, [])
       else if subscription_type current_user = ONE_TIME
               \<and> remaining_enhancements current_user \<le> 0 then
         (Inl (HTTPException 403
            (Msg ''No remaining enhancements. Please purchase more or upgrade to Pro.'')), db, [])
       else
         let db1 = (if subscription_type current_user = ONE_TIME then
                      db \<lparr> users := store_user
                             (current_user \<lparr> remaining_enhancements :=
                                               remaining_enhancements current_user - 1 \<rparr>)
                             (users db) \<rparr>
                    else db);
             event = \<lparr> a_user_id = u_id current_user, a_resume_id = r_id resume,
                       action_type = RESUME_ENHANCE,
                       metadata = [(''has_job_description'',
                                     PBool (truthy (er_job_description request)))],
                       a_created_at = now \<rparr>
         in (Inr resume, db1 \<lparr> analytics := analytics db1 @ [event] \<rparr>,
             [Task_enhance_resume (r_id resume)
                (py_or (er_job_description request) (job_description resume))]))"

definition get_resume_score ::
  "env \<Rightarrow> int \<Rightarrow> User \<Rightarrow> database \<Rightarrow> ResumeScoreResponse outcome" where
  "get_resume_score e resume_id current_user db =
    (case query_resume db resume_id (u_id current_user) of
       None \<Rightarrow> (Inl not_found, db, [])
     | Some resume \<Rightarrow>
       if \<not> truthy_num (score resume) then
         (let text = or_else (enhanced_content resume) (original_content resume);
              call = Call_score_resume text (job_description resume)
          in case score_resume e text (job_description resume) of
               Inl ex \<Rightarrow> (Inl ex, db, [call])
             | Inr (s, f, g) \<Rightarrow>
                 (Inr \<lparr> sr_score = Some s, sr_feedback = Some f,
                        sr_learning_suggestions = Some g \<rparr>,
                  db \<lparr> resumes := update_first (resume_filter resume_id (u_id current_user))
                         (\<lambda>r. r \<lparr> score := Some s, feedback := Some f,
                                   learning_suggestions := Some g \<rparr>) (resumes db) \<rparr>,
                  [call]))
       else
         (Inr \<lparr> sr_score = score resume, sr_feedback = feedback resume,
                sr_learning_suggestions = learning_suggestions resume \<rparr>, db, []))"

definition generate_cover_letter_endpoint ::
  "env \<Rightarrow> CoverLetterRequest \<Rightarrow> User \<Rightarrow> database \<Rightarrow> int \<Rightarrow> string outcome" where
  "generate_cover_letter_endpoint e request current_user db now =
    (case query_resume db (cl_resume_id request) (u_id current_user) of
       None \<Rightarrow> (Inl not_found, db, [])
     | Some resume \<Rightarrow>
       if subscription_type current_user = FREE then
         (Inl (HTTPException 403
            (Msg ''Free users cannot generate cover letters. Please upgrade your subscription.'')),
          db, [])
       else
         (let text = or_else (enhanced_content resume) (original_content resume);
              call = Call_generate_cover_letter text (cl_job_description request)
                       (cl_company_name request) (cl_position request)
          in case generate_cover_letter e text (cl_job_description request)
                    (cl_company_name request) (cl_position request) of
               Inl ex \<Rightarrow> (Inl ex, db, [call])
             | Inr letter \<Rightarrow>
                 let db1 = db \<lparr> resumes :=
                             update_first (resume_filter (cl_resume_id request) (u_id current_user))
                               (\<lambda>r. r \<lparr> cover_letter := Some letter \<rparr>) (resumes db) \<rparr>;
                     event = \<lparr> a_user_id = u_id current_user, a_resume_id = r_id resume,
                               action_type = COVER_LETTER_GENERATE,
                               metadata = [(''company_name'', PStr (cl_company_name request)),
                                           (''position'', PStr (cl_position request))],
                               a_created_at = now \<rparr>
                 in (Inr letter, db1 \<lparr> analytics := analytics db1 @ [event] \<rparr>, [call])))"

definition list_resumes :: "User \<Rightarrow> database \<Rightarrow> Resume list outcome" where
  "list_resumes current_user db =
    (Inr (order_by_desc created_at
            (filter (\<lambda>r. r_user_id r = u_id current_user) (resumes db))), db, [])"

definition get_resume :: "int \<Rightarrow> User \<Rightarrow> database \<Rightarrow> Resume outcome" where
  "get_resume resume_id current_user db =
    (case query_resume db resume_id (u_id current_user) of
       None \<Rightarrow> (Inl not_found, db, [])
     | Some resume \<Rightarrow> (Inr resume, db, []))"

definition delete_resume :: "int \<Rightarrow> User \<Rightarrow> database \<Rightarrow> string outcome" where
  "delete_resume resume_id current_user db =
    (case query_resume db resume_id (u_id current_user) of
       None \<Rightarrow> (Inl not_found, db, [])
     | Some resume \<Rightarrow>
         (Inr ''Resume deleted successfully'',
          db \<lparr> resumes := delete_first (resume_filter resume_id (u_id current_user)) (resumes db) \<rparr>,
          []))"

text \<open>
  \<open>try: ... except Exception as e: raise HTTPException(status_code=500, detail=str(e))\<close>.
  \<open>HTTPException\<close> is itself a subclass of \<open>Exception\<close>, so every exception raised
  in the body, typed or not, is caught.
\<close>

definition except_Exception :: "'a outcome \<Rightarrow> 'a outcome" where
  "except_Exception out =
    (case fst out of
       Inl ex \<Rightarrow> (Inl (HTTPException 500 (Str ex)), snd out)
     | Inr v \<Rightarrow> out)"

definition analyze_resume :: "env \<Rightarrow> Request \<Rightarrow> User \<Rightarrow> database \<Rightarrow> int \<Rightarrow> dict outcome" where
  "analyze_resume e request current_user db now =
    except_Exception
      (case request_json request of
         Inl ex \<Rightarrow> (Inl ex, db, [])
       | Inr data \<Rightarrow>
         (case first (\<lambda>r. dict_get data ''resume_id'' = Some (PInt (r_id r))
                            \<and> r_user_id r = u_id current_user) (resumes db) of
              None \<Rightarrow> (Inl not_found, db, [])
            | Some resume \<Rightarrow>
               (let text = or_else (enhanced_content resume) (original_content resume);
                    call = Call_analyze_resume_content text (job_description resume)
                in case analyze_resume_content e text (job_description resume) of
                     Inl ex \<Rightarrow> (Inl ex, db, [call])
                   | Inr analysis \<Rightarrow>
                       let event = \<lparr> a_user_id = u_id current_user, a_resume_id = r_id resume,
                                     action_type = RESUME_ANALYZE, metadata = [],
                                     a_created_at = now \<rparr>
                       in (Inr analysis, db \<lparr> analytics := analytics db @ [event] \<rparr>, [call]))))"

record HistoryEntry =
  h_action :: ActionType
  h_timestamp :: int
  h_resume_id :: int
  h_metadata :: dict

definition get_resume_history :: "User \<Rightarrow> database \<Rightarrow> HistoryEntry list outcome" where
  "get_resume_history current_user db =
    except_Exception
      (let history = order_by_desc a_created_at
             (filter (\<lambda>h. a_user_id h = u_id current_user
                          \<and> action_type h \<in> set [RESUME_UPLOAD, RESUME_ENHANCE, RESUME_ANALYZE])
                (analytics db))
       in (Inr (map (\<lambda>h. \<lparr> h_action = action_type h, h_timestamp = a_created_at h,
                            h_resume_id = a_resume_id h, h_metadata = metadata h \<rparr>) history),
           db, []))"

text \<open>Lines 342 to 345: the two writes on the user object and the commit.\<close>

definition grant_pro_access :: "User \<Rightarrow> database \<Rightarrow> database" where
  "grant_pro_access current_user db =
    db \<lparr> users := store_user
           (current_user \<lparr> subscription_type := PRO, remaining_enhancements := - 1 \<rparr>)
           (users db) \<rparr>"

definition validate_developer_code :: "env \<Rightarrow> Request \<Rightarrow> database \<Rightarrow> string outcome" where
  "validate_developer_code e request db =
    except_Exception
      (case request_json request of
         Inl ex \<Rightarrow> (Inl ex, db, [])
       | Inr data \<Rightarrow>
         (case is_valid_developer_code e (dict_get data ''code'') of
            Inl ex \<Rightarrow> (Inl ex, db, [])
          | Inr ok \<Rightarrow>
              if \<not> ok then (Inl (HTTPException 400 (Msg ''Invalid developer code'')), db, [])
              else (case api_get_current_user e request db of
                      Inl ex \<Rightarrow> (Inl ex, db, [])
                    | Inr current_user \<Rightarrow>
                        (Inr ''Pro access granted successfully'',
                         grant_pro_access current_user db, []))))"

record DownloadStats =
  total_downloads :: int
  remaining_downloads :: int
  download_history :: "(int \<times> pyval option \<times> int) list"

definition get_download_stats :: "User \<Rightarrow> database \<Rightarrow> DownloadStats outcome" where
  "get_download_stats current_user db =
    except_Exception
      (let downloads = filter (\<lambda>a. a_user_id a = u_id current_user
                                   \<and> action_type a = RESUME_DOWNLOAD) (analytics db)
       in (Inr \<lparr> total_downloads = int (length downloads),
                 remaining_downloads =
                   (if subscription_type current_user = PRO then - 1
                    else max 0 (4 - int (length downloads))),
                 download_history =
                   map (\<lambda>d. (a_created_at d, dict_get (metadata d) ''format'', a_resume_id d))
                     downloads \<rparr>,
           db, []))"

section \<open>Authentication (\<open>app/routers/auth.py\<close>)\<close>

text \<open>
  Time is the number of seconds since the epoch, which is what the \<open>exp\<close> claim of a
  token holds; a \<open>timedelta\<close> is a number of seconds. The handlers that read the clock
  take it as the argument \<open>now\<close>.

  The module imported as \<open>jwt\<close> is the PyJWT library, outside the repository.
  \<open>jwt.encode\<close> signs the payload with the key and raises \<open>TypeError\<close> when the key
  is \<open>None\<close>. \<open>jwt.decode\<close> raises \<open>DecodeError\<close> on a string that is no token,
  \<open>InvalidSignatureError\<close> on a signature made with another key and
  \<open>ExpiredSignatureError\<close> on an \<open>exp\<close> claim that is not in the future, and gives the
  payload back otherwise. The module has no attribute \<open>JWTError\<close>.
\<close>

definition ACCESS_TOKEN_EXPIRE_MINUTES :: int where
  "ACCESS_TOKEN_EXPIRE_MINUTES = 30"

definition timedelta_minutes :: "int \<Rightarrow> int" where
  "timedelta_minutes m = m * 60"

definition timedelta_hours :: "int \<Rightarrow> int" where
  "timedelta_hours h = h * 3600"

definition jwt_encode :: "dict \<Rightarrow> string option \<Rightarrow> exn + token" where
  "jwt_encode payload key =
    (case key of
       None \<Rightarrow> Inl (TypeError ''Expected a string value'')
     | Some k \<Rightarrow> Inr (Signed k payload))"

definition jwt_decode :: "token \<Rightarrow> string option \<Rightarrow> int \<Rightarrow> exn + dict" where
  "jwt_decode tok key now =
    (case tok of
       Malformed s \<Rightarrow> Inl DecodeError
     | Signed k payload \<Rightarrow>
         (case key of
            None \<Rightarrow> Inl (TypeError ''Expected a string value'')
          | Some secret \<Rightarrow>
              if k \<noteq> secret then Inl InvalidSignatureError
              else (case map_of payload ''exp'' of
                      None \<Rightarrow> Inr payload
                    | Some (PInt ex) \<Rightarrow>
                        if ex \<le> now then Inl ExpiredSignatureError else Inr payload
                    | Some v \<Rightarrow> Inl DecodeError)))"

text \<open>The claims a token carries, read without verification.\<close>

definition claims_of :: "token \<Rightarrow> dict" where
  "claims_of tok = (case tok of Signed k payload \<Rightarrow> payload | Malformed s \<Rightarrow> [])"

definition verify_password :: "env \<Rightarrow> string \<Rightarrow> string \<Rightarrow> bool" where
  "verify_password e plain_password hashed_password =
     pwd_context_verify e plain_password hashed_password"

definition get_password_hash :: "env \<Rightarrow> string \<Rightarrow> string" where
  "get_password_hash e pw = pwd_context_hash e pw"

text \<open>\<open>if expires_delta:\<close> is false for \<open>None\<close> and for a zero \<open>timedelta\<close>.\<close>

definition create_access_token :: "env \<Rightarrow> dict \<Rightarrow> int option \<Rightarrow> int \<Rightarrow> exn + token" where
  "create_access_token e data expires_delta now =
    (let expire = (case expires_delta of
                     None \<Rightarrow> now + timedelta_minutes 15
                   | Some delta \<Rightarrow> if delta \<noteq> 0 then now + delta
                                   else now + timedelta_minutes 15);
         to_encode = AList.update ''exp'' (PInt expire) data
     in jwt_encode to_encode (SECRET_KEY e))"

definition credentials_exception :: exn where
  "credentials_exception = HTTPException 401 (Msg ''Could not validate credentials'')"

text \<open>
  The body of the \<open>try\<close> of \<open>get_current_user\<close> (lines 66 to 69): decode the token,
  read \<open>sub\<close>, raise \<open>credentials_exception\<close> when it is \<open>None\<close>.
\<close>

definition get_current_user_try :: "env \<Rightarrow> token \<Rightarrow> int \<Rightarrow> exn + pyval" where
  "get_current_user_try e tok now =
    (case jwt_decode tok (SECRET_KEY e) now of
       Inl ex \<Rightarrow> Inl ex
     | Inr payload \<Rightarrow>
         (case dict_get payload ''sub'' of
            None \<Rightarrow> Inl credentials_exception
          | Some user_id \<Rightarrow> Inr user_id))"

text \<open>
  The clause \<open>except jwt.JWTError:\<close> (line 70). When an exception leaves the body of
  the \<open>try\<close>, Python evaluates the expression of the clause to match against it. The
  module \<open>jwt\<close> has no attribute of that name, so the evaluation raises
  \<open>AttributeError\<close>, whatever the exception was; \<open>raise credentials_exception\<close> on
  line 71 is never reached.
\<close>

definition except_jwt_JWTError :: "exn \<Rightarrow> exn" where
  "except_jwt_JWTError raised = AttributeError ''module jwt has no attribute JWTError''"

definition get_current_user :: "env \<Rightarrow> token \<Rightarrow> database \<Rightarrow> int \<Rightarrow> exn + User" where
  "get_current_user e tok db now =
    (case get_current_user_try e tok now of
       Inl raised \<Rightarrow> Inl (except_jwt_JWTError raised)
     | Inr user_id \<Rightarrow>
         (case first (\<lambda>u. PStr (u_id u) = user_id) (users db) of
            None \<Rightarrow> Inl credentials_exception
          | Some user \<Rightarrow> Inr user))"

record UserCreate =
  uc_email :: string
  uc_password :: string
  uc_fullName :: string

record Token =
  access_token :: token
  token_type :: string

text \<open>
  \<open>signup\<close> builds the row with \<open>"plan": "free"\<close>; the row is on the free tier. The id
  is the primary key that the database assigns, and the counter starts at the default of
  the column; both are arguments.
\<close>

definition signup :: "env \<Rightarrow> UserCreate \<Rightarrow> string \<Rightarrow> int \<Rightarrow> database \<Rightarrow> User outcome" where
  "signup e user_data new_id counter_default db =
    (case first (\<lambda>u. email u = uc_email user_data) (users db) of
       Some db_user \<Rightarrow> (Inl (HTTPException 400 (Msg ''Email already registered'')), db, [])
     | None \<Rightarrow>
         let db_user = \<lparr> u_id = new_id, email = uc_email user_data,
                         password = get_password_hash e (uc_password user_data),
                         full_name = uc_fullName user_data,
                         subscription_type = FREE,
                         remaining_enhancements = counter_default \<rparr>
         in (Inr db_user, db \<lparr> users := users db @ [db_user] \<rparr>, []))"

definition signin :: "env \<Rightarrow> string \<Rightarrow> string \<Rightarrow> database \<Rightarrow> int \<Rightarrow> exn + Token" where
  "signin e username pw db now =
    (case first (\<lambda>u. email u = username) (users db) of
       None \<Rightarrow> Inl (HTTPException 401 (Msg ''Incorrect email or password''))
     | Some user \<Rightarrow>
         if \<not> verify_password e pw (password user) then
           Inl (HTTPException 401 (Msg ''Incorrect email or password''))
         else
           let access_token_expires = timedelta_minutes ACCESS_TOKEN_EXPIRE_MINUTES
           in (case create_access_token e [(''sub'', PStr (u_id user))]
                      (Some access_token_expires) now of
                 Inl ex \<Rightarrow> Inl ex
               | Inr tok \<Rightarrow> Inr \<lparr> access_token = tok, token_type = ''bearer'' \<rparr>))"

definition signout :: "dict" where
  "signout = [(''message'', PStr ''Successfully signed out'')]"

definition get_current_user_info :: "env \<Rightarrow> token \<Rightarrow> database \<Rightarrow> int \<Rightarrow> exn + User" where
  "get_current_user_info e tok db now = get_current_user e tok db now"

definition reset_message :: dict where
  "reset_message = [(''message'',
     PStr ''If an account exists with this email, you will receive password reset instructions'')]"

definition reset_password :: "env \<Rightarrow> string \<Rightarrow> database \<Rightarrow> int \<Rightarrow> (exn + dict) \<times> database" where
  "reset_password e address db now =
    (case first (\<lambda>u. email u = address) (users db) of
       None \<Rightarrow> (Inr reset_message, db)
     | Some user \<Rightarrow>
         (case create_access_token e
                 [(''sub'', PStr (u_id user)), (''type'', PStr ''password_reset'')]
                 (Some (timedelta_hours 1)) now of
            Inl ex \<Rightarrow> (Inl ex, db)
          | Inr reset_token \<Rightarrow> (Inr reset_message, db)))"

section \<open>The endpoints as one transition function\<close>

text \<open>
  One constructor per route of the two routers. A route that depends on
  \<open>get_current_user\<close> carries the user that the dependency resolved.
\<close>

datatype call =
    Upload ResumeCreate User
  | Enhance ResumeEnhanceRequest User
  | Score int User
  | CoverLetter CoverLetterRequest User
  | ListResumes User
  | GetResume int User
  | DeleteResume int User
  | Analyze Request User
  | History User
  | DeveloperCode Request
  | DownloadTracker User
  | Signup UserCreate string int
  | Signin string string
  | Signout
  | Me token
  | ResetPassword string

fun db_after :: "env \<Rightarrow> int \<Rightarrow> database \<Rightarrow> call \<Rightarrow> database" where
  "db_after e now db (Upload resume_data u) = db_of (upload_resume resume_data u db now)"
| "db_after e now db (Enhance request u) = db_of (enhance_resume_endpoint request u db now)"
| "db_after e now db (Score rid u) = db_of (get_resume_score e rid u db)"
| "db_after e now db (CoverLetter request u) = db_of (generate_cover_letter_endpoint e request u db now)"
| "db_after e now db (ListResumes u) = db_of (list_resumes u db)"
| "db_after e now db (GetResume rid u) = db_of (get_resume rid u db)"
| "db_after e now db (DeleteResume rid u) = db_of (delete_resume rid u db)"
| "db_after e now db (Analyze request u) = db_of (analyze_resume e request u db now)"
| "db_after e now db (History u) = db_of (get_resume_history u db)"
| "db_after e now db (DeveloperCode request) = db_of (validate_developer_code e request db)"
| "db_after e now db (DownloadTracker u) = db_of (get_download_stats u db)"
| "db_after e now db (Signup user_data new_id counter_default) =
     db_of (signup e user_data new_id counter_default db)"
| "db_after e now db (Signin username pw) = db"
| "db_after e now db Signout = db"
| "db_after e now db (Me tok) = db"
| "db_after e now db (ResetPassword address) = snd (reset_password e address db now)"

section \<open>Vocabulary of the properties\<close>

text \<open>The counter of every one-time user is not negative.\<close>

definition counter_ok :: "database \<Rightarrow> bool" where
  "counter_ok db =
     list_all (\<lambda>u. subscription_type u = ONE_TIME \<longrightarrow> 0 \<le> remaining_enhancements u) (users db)"

text \<open>The resume rows that belong to somebody else than \<open>uid\<close>.\<close>

definition others_rows :: "string \<Rightarrow> database \<Rightarrow> Resume list" where
  "others_rows uid db = filter (\<lambda>r. r_user_id r \<noteq> uid) (resumes db)"

text \<open>The resume rows that belong to \<open>uid\<close>.\<close>

definition own_rows :: "string \<Rightarrow> database \<Rightarrow> Resume list" where
  "own_rows uid db = filter (\<lambda>r. r_user_id r = uid) (resumes db)"

section \<open>A small database for concrete runs\<close>

definition alice :: User where
  "alice = \<lparr> u_id = ''u1'', email = ''alice@example.com'', password = ''hash:wonder'',
             full_name = ''Alice'', subscription_type = ONE_TIME, remaining_enhancements = 2 \<rparr>"

definition bob :: User where
  "bob = \<lparr> u_id = ''u2'', email = ''bob@example.com'', password = ''hash:builder'',
           full_name = ''Bob'', subscription_type = FREE, remaining_enhancements = 0 \<rparr>"

definition cv_alice :: Resume where
  "cv_alice = \<lparr> r_id = 1, r_user_id = ''u1'', original_content = ''Alice, engineer'',
                job_description = None, linkedin_url = None, enhanced_content = None,
                score = None, feedback = None, learning_suggestions = None,
                cover_letter = None, created_at = 100 \<rparr>"

definition cv_bob :: Resume where
  "cv_bob = \<lparr> r_id = 2, r_user_id = ''u2'', original_content = ''Bob, builder'',
              job_description = None, linkedin_url = None, enhanced_content = None,
              score = None, feedback = None, learning_suggestions = None,
              cover_letter = None, created_at = 200 \<rparr>"

definition cv_zero :: Resume where
  "cv_zero = \<lparr> r_id = 3, r_user_id = ''u1'', original_content = ''x'',
               job_description = None, linkedin_url = None, enhanced_content = None,
               score = Some 0, feedback = Some ''nothing to assess'',
               learning_suggestions = Some ''write a resume'',
               cover_letter = None, created_at = 300 \<rparr>"

definition db0 :: database where
  "db0 = \<lparr> users = [alice, bob], resumes = [cv_alice, cv_bob, cv_zero], versions = [],
           analytics = [], next_resume_id = 4 \<rparr>"

definition env0 :: env where
  "env0 = \<lparr> SECRET_KEY = Some ''secret'',
            pwd_context_verify = (\<lambda>plain hashed. hashed = ''hash:'' @ plain),
            pwd_context_hash = (\<lambda>plain. ''hash:'' @ plain),
            score_resume = (\<lambda>text jd. Inr (70, ''solid'', ''learn SQL'')),
            generate_cover_letter = (\<lambda>text jd company position. Inr ''Dear team''),
            analyze_resume_content = (\<lambda>text jd. Inr [(''summary'', PStr ''fine'')]),
            is_valid_developer_code = (\<lambda>code. Inr (code = Some (PStr ''dev-code''))),
            api_get_current_user = (\<lambda>request db.
               case first (\<lambda>u. u_id u = ''u1'') (users db) of
                 None \<Rightarrow> Inl (HTTPException 401 (Msg ''Could not validate credentials''))
               | Some u \<Rightarrow> Inr u) \<rparr>"

text \<open>The same collaborators in a process started without \<open>JWT_SECRET_KEY\<close>.\<close>

definition env_no_key :: env where
  "env_no_key = env0 \<lparr> SECRET_KEY := None \<rparr>"

section \<open>Lemmas about the query helpers\<close>

lemma first_SomeD: "first P xs = Some x \<Longrightarrow> x \<in> set xs \<and> P x"
  by (auto simp: first_def find_Some_iff)

lemma first_None_iff: "first P xs = None \<longleftrightarrow> (\<forall>x\<in>set xs. \<not> P x)"
  by (auto simp: first_def find_None_iff)

lemma query_resume_SomeD:
  "query_resume db rid uid = Some r \<Longrightarrow> r \<in> set (resumes db) \<and> r_id r = rid \<and> r_user_id r = uid"
  by (auto simp: query_resume_def resume_filter_def dest: first_SomeD)

lemma query_resume_None_iff:
  "query_resume db rid uid = None \<longleftrightarrow> (\<forall>r\<in>set (resumes db). r_id r = rid \<longrightarrow> r_user_id r \<noteq> uid)"
  by (auto simp: query_resume_def resume_filter_def first_None_iff)

lemma filter_update_first:
  "(\<And>x. P x \<Longrightarrow> \<not> Q x) \<Longrightarrow> (\<And>x. P x \<Longrightarrow> \<not> Q (f x)) \<Longrightarrow>
     filter Q (update_first P f xs) = filter Q xs"
  by (induction xs) auto

lemma filter_delete_first:
  "(\<And>x. P x \<Longrightarrow> \<not> Q x) \<Longrightarrow> filter Q (delete_first P xs) = filter Q xs"
  by (induction xs) auto

section \<open>The subscription gate and the free tier\<close>

text \<open>
  Claim C1 says that each of \<open>upload_resume\<close>, \<open>enhance_resume_endpoint\<close>,
  \<open>get_resume_score\<close> and \<open>generate_cover_letter_endpoint\<close> answers a user of the free
  tier with status 403 before the paid action. Two runs on \<open>db0\<close> show otherwise.
  Bob is on the free tier. When he asks to enhance resume 1, which is Alice's, the lookup
  comes first and the answer is 404. When he asks for the score of his own resume 2, which
  has none yet, the handler has no tier check: it calls the scorer and answers with the
  new score.
\<close>

theorem free_tier_counterexample:
  "subscription_type bob = FREE
   \<and> response (enhance_resume_endpoint \<lparr> er_resume_id = 1, er_job_description = None \<rparr> bob db0 500)
       = Inl (HTTPException 404 (Msg ''Resume not found''))
   \<and> response (get_resume_score env0 2 bob db0)
       = Inr \<lparr> sr_score = Some 70, sr_feedback = Some ''solid'',
               sr_learning_suggestions = Some ''learn SQL'' \<rparr>
   \<and> effects (get_resume_score env0 2 bob db0) = [Call_score_resume ''Bob, builder'' None]"
  by (simp add: response_def effects_def enhance_resume_endpoint_def get_resume_score_def
      query_resume_def first_def resume_filter_def not_found_def truthy_num_def or_else_def
      db0_def bob_def cv_alice_def cv_bob_def cv_zero_def env0_def)

text \<open>
  Claim C1, amended: for a user of the free tier, \<open>upload_resume\<close> raises 403;
  \<open>enhance_resume_endpoint\<close> and \<open>generate_cover_letter_endpoint\<close> raise 404 when the
  caller owns no resume with the requested id and 403 otherwise. In each case the
  database is left as it was and no external call or background task is made.
\<close>

theorem free_tier_rejected:
  assumes "subscription_type current_user = FREE"
  shows "upload_resume resume_data current_user db now =
           (Inl (HTTPException 403
              (Msg ''Free users cannot upload resumes. Please upgrade your subscription.'')), db, [])
       \<and> enhance_resume_endpoint request current_user db now =
           (Inl (if query_resume db (er_resume_id request) (u_id current_user) = None
                 then HTTPException 404 (Msg ''Resume not found'')
                 else HTTPException 403
                   (Msg ''Free users cannot enhance resumes. Please upgrade your subscription.'')),
            db, [])
       \<and> generate_cover_letter_endpoint e letter_request current_user db now =
           (Inl (if query_resume db (cl_resume_id letter_request) (u_id current_user) = None
                 then HTTPException 404 (Msg ''Resume not found'')
                 else HTTPException 403
                   (Msg ''Free users cannot generate cover letters. Please upgrade your subscription.'')),
            db, [])"
  using assms
  by (simp add: upload_resume_def enhance_resume_endpoint_def
      generate_cover_letter_endpoint_def not_found_def split: option.splits)

theorem free_tier_rejected_witness:
  "subscription_type bob = FREE
   \<and> upload_resume \<lparr> rc_content = ''cv'', rc_job_description = None, rc_linkedin_url = None \<rparr>
        bob db0 500 =
       (Inl (HTTPException 403
          (Msg ''Free users cannot upload resumes. Please upgrade your subscription.'')), db0, [])
   \<and> enhance_resume_endpoint \<lparr> er_resume_id = 2, er_job_description = None \<rparr> bob db0 500 =
       (Inl (HTTPException 403
          (Msg ''Free users cannot enhance resumes. Please upgrade your subscription.'')), db0, [])
   \<and> generate_cover_letter_endpoint env0
        \<lparr> cl_resume_id = 2, cl_job_description = None, cl_company_name = ''Acme'',
          cl_position = ''Mason'' \<rparr> bob db0 500 =
       (Inl (HTTPException 403
          (Msg ''Free users cannot generate cover letters. Please upgrade your subscription.'')),
        db0, [])"
proof -
  have free: "subscription_type bob = FREE"
    by (simp add: bob_def)
  have own: "query_resume db0 2 (u_id bob) = Some cv_bob"
    by (simp add: query_resume_def first_def resume_filter_def db0_def bob_def cv_alice_def cv_bob_def)
  show ?thesis
    using free own
      free_tier_rejected [OF free,
        of "\<lparr> rc_content = ''cv'', rc_job_description = None, rc_linkedin_url = None \<rparr>" db0 500
           "\<lparr> er_resume_id = 2, er_job_description = None \<rparr>" env0
           "\<lparr> cl_resume_id = 2, cl_job_description = None, cl_company_name = ''Acme'',
              cl_position = ''Mason'' \<rparr>"]
    by simp
qed

section \<open>The counter of the one-time tier\<close>

text \<open>
  Claim C2: a user of the one-time tier calls \<open>enhance_resume_endpoint\<close> on a resume of
  their own. With a positive counter the call succeeds and the counter of the user's row
  goes down by exactly one; with a counter of zero or less the call raises 403 and the
  database, the counter included, is as before. The authenticated user is a row of the
  users table.
\<close>

theorem one_time_enhance:
  assumes "subscription_type current_user = ONE_TIME"
    and "query_resume db (er_resume_id request) (u_id current_user) = Some resume"
    and "current_user \<in> set (users db)"
  shows "(0 < remaining_enhancements current_user \<longrightarrow>
            response (enhance_resume_endpoint request current_user db now) = Inr resume
          \<and> users (db_of (enhance_resume_endpoint request current_user db now)) =
              store_user (current_user \<lparr> remaining_enhancements :=
                                           remaining_enhancements current_user - 1 \<rparr>) (users db)
          \<and> current_user \<lparr> remaining_enhancements := remaining_enhancements current_user - 1 \<rparr>
              \<in> set (users (db_of (enhance_resume_endpoint request current_user db now))))
       \<and> (remaining_enhancements current_user \<le> 0 \<longrightarrow>
            response (enhance_resume_endpoint request current_user db now) =
              Inl (HTTPException 403
                (Msg ''No remaining enhancements. Please purchase more or upgrade to Pro.''))
          \<and> db_of (enhance_resume_endpoint request current_user db now) = db)"
proof -
  have mem: "u \<lparr> remaining_enhancements := n \<rparr> \<in> set (store_user (u \<lparr> remaining_enhancements := n \<rparr>) us)"
    if "u \<in> set us" for u :: User and n us
    using that by (force simp: store_user_def)
  show ?thesis
    using assms mem [OF assms(3)]
    by (simp add: enhance_resume_endpoint_def response_def db_of_def Let_def)
qed

theorem one_time_enhance_witness:
  "response (enhance_resume_endpoint \<lparr> er_resume_id = 1, er_job_description = None \<rparr> alice db0 500)
     = Inr cv_alice
   \<and> users (db_of (enhance_resume_endpoint \<lparr> er_resume_id = 1, er_job_description = None \<rparr>
                     alice db0 500))
     = [alice \<lparr> remaining_enhancements := 1 \<rparr>, bob]
   \<and> response (enhance_resume_endpoint \<lparr> er_resume_id = 1, er_job_description = None \<rparr>
                 (alice \<lparr> remaining_enhancements := 0 \<rparr>)
                 (db0 \<lparr> users := [alice \<lparr> remaining_enhancements := 0 \<rparr>, bob] \<rparr>) 500)
     = Inl (HTTPException 403
          (Msg ''No remaining enhancements. Please purchase more or upgrade to Pro.''))
   \<and> db_of (enhance_resume_endpoint \<lparr> er_resume_id = 1, er_job_description = None \<rparr>
                 (alice \<lparr> remaining_enhancements := 0 \<rparr>)
                 (db0 \<lparr> users := [alice \<lparr> remaining_enhancements := 0 \<rparr>, bob] \<rparr>) 500)
     = db0 \<lparr> users := [alice \<lparr> remaining_enhancements := 0 \<rparr>, bob] \<rparr>"
proof -
  let ?rq = "\<lparr> er_resume_id = 1, er_job_description = None \<rparr>"
  let ?a0 = "alice \<lparr> remaining_enhancements := 0 \<rparr>"
  let ?d0 = "db0 \<lparr> users := [?a0, bob] \<rparr>"
  have t: "subscription_type alice = ONE_TIME" "subscription_type ?a0 = ONE_TIME"
    by (simp_all add: alice_def)
  have q: "query_resume db0 (er_resume_id ?rq) (u_id alice) = Some cv_alice"
    "query_resume ?d0 (er_resume_id ?rq) (u_id ?a0) = Some cv_alice"
    by (simp_all add: query_resume_def first_def resume_filter_def db0_def alice_def cv_alice_def)
  have m: "alice \<in> set (users db0)" "?a0 \<in> set (users ?d0)"
    by (simp_all add: db0_def)
  have pos: "0 < remaining_enhancements alice" "remaining_enhancements ?a0 \<le> 0"
    by (simp_all add: alice_def)
  have st: "store_user (alice \<lparr> remaining_enhancements := remaining_enhancements alice - 1 \<rparr>)
              (users db0) = [alice \<lparr> remaining_enhancements := 1 \<rparr>, bob]"
    by (simp add: store_user_def db0_def alice_def bob_def)
  show ?thesis
    using one_time_enhance [OF t(1) q(1) m(1), of 500]
      one_time_enhance [OF t(2) q(2) m(2), of 500] pos st
    by simp
qed

section \<open>Upload leaves the user alone\<close>

text \<open>
  Claim C9: \<open>upload_resume\<close> never writes to the users table, whatever the tier and
  whether it succeeds or not: the counter and the tier of every user are as before. The
  one-time tier is only checked: with a positive counter the upload succeeds, and the
  counter is not consumed.
\<close>

theorem upload_keeps_users:
  "users (db_of (upload_resume resume_data current_user db now)) = users db
   \<and> (subscription_type current_user = PRO
        \<or> subscription_type current_user = ONE_TIME \<and> 0 < remaining_enhancements current_user
      \<longrightarrow> (\<exists>resume. response (upload_resume resume_data current_user db now) = Inr resume))"
  by (auto simp: upload_resume_def db_of_def response_def Let_def)

theorem upload_keeps_users_witness:
  "subscription_type alice = ONE_TIME \<and> 0 < remaining_enhancements alice
   \<and> users (db_of (upload_resume
        \<lparr> rc_content = ''cv'', rc_job_description = None, rc_linkedin_url = None \<rparr> alice db0 500))
      = [alice, bob]
   \<and> (\<exists>resume. response (upload_resume
        \<lparr> rc_content = ''cv'', rc_job_description = None, rc_linkedin_url = None \<rparr> alice db0 500)
      = Inr resume)"
proof -
  have a: "subscription_type alice = ONE_TIME \<and> 0 < remaining_enhancements alice"
    by (simp add: alice_def)
  have u: "users db0 = [alice, bob]"
    by (simp add: db0_def)
  show ?thesis
    using a u upload_keeps_users
      [of "\<lparr> rc_content = ''cv'', rc_job_description = None, rc_linkedin_url = None \<rparr>" alice db0 500]
    by simp
qed

section \<open>Resume endpoints work on the caller's rows only\<close>

lemma find_conj_filter: "find (\<lambda>x. P x \<and> Q x) xs = find P (filter Q xs)"
  by (induction xs) auto

lemma query_resume_own:
  "query_resume db rid uid = first (\<lambda>r. r_id r = rid) (own_rows uid db)"
proof -
  have "resume_filter rid uid = (\<lambda>r. r_id r = rid \<and> r_user_id r = uid)"
    by (simp add: fun_eq_iff resume_filter_def)
  then show ?thesis
    by (simp add: query_resume_def first_def own_rows_def find_conj_filter)
qed

lemma others_update:
  "filter (\<lambda>r. r_user_id r \<noteq> uid) (update_first (resume_filter rid uid) (\<lambda>r. g r) rs)
     = filter (\<lambda>r. r_user_id r \<noteq> uid) rs"
  if "\<And>r. r_user_id (g r) = r_user_id r"
  by (rule filter_update_first) (simp_all add: resume_filter_def that)

lemma others_delete:
  "filter (\<lambda>r. r_user_id r \<noteq> uid) (delete_first (resume_filter rid uid) rs)
     = filter (\<lambda>r. r_user_id r \<noteq> uid) rs"
  by (rule filter_delete_first) (simp add: resume_filter_def)

lemma others_untouched:
  "others_rows (u_id u) (db_of (get_resume rid u db)) = others_rows (u_id u) db"
  "others_rows (u_id u) (db_of (list_resumes u db)) = others_rows (u_id u) db"
  "others_rows (u_id u) (db_of (enhance_resume_endpoint rq u db now)) = others_rows (u_id u) db"
  "others_rows (u_id u) (db_of (get_resume_score e rid u db)) = others_rows (u_id u) db"
  "others_rows (u_id u) (db_of (generate_cover_letter_endpoint e cr u db now)) = others_rows (u_id u) db"
  "others_rows (u_id u) (db_of (delete_resume rid u db)) = others_rows (u_id u) db"
  by (simp_all add: others_rows_def db_of_def get_resume_def list_resumes_def
      enhance_resume_endpoint_def get_resume_score_def generate_cover_letter_endpoint_def
      delete_resume_def Let_def others_update others_delete
      split: option.splits sum.splits prod.splits)

lemma returned_rows_owned:
  "response (get_resume rid u db) = Inr r \<Longrightarrow>
     r \<in> set (resumes db) \<and> r_id r = rid \<and> r_user_id r = u_id u"
  "response (enhance_resume_endpoint rq u db now) = Inr r \<Longrightarrow>
     r \<in> set (resumes db) \<and> r_id r = er_resume_id rq \<and> r_user_id r = u_id u"
  "response (list_resumes u db) = Inr rs \<Longrightarrow>
     set rs = {r \<in> set (resumes db). r_user_id r = u_id u}"
  by (auto simp: response_def get_resume_def enhance_resume_endpoint_def list_resumes_def
      order_by_desc_def Let_def
      split: option.splits if_splits dest: query_resume_SomeD)

lemma foreign_id_404:
  assumes "\<forall>r\<in>set (resumes db). r_id r = rid \<longrightarrow> r_user_id r \<noteq> u_id u"
  shows "get_resume rid u db = (Inl not_found, db, [])"
    "er_resume_id rq = rid \<Longrightarrow> enhance_resume_endpoint rq u db now = (Inl not_found, db, [])"
    "get_resume_score e rid u db = (Inl not_found, db, [])"
    "cl_resume_id cr = rid \<Longrightarrow> generate_cover_letter_endpoint e cr u db now = (Inl not_found, db, [])"
    "delete_resume rid u db = (Inl not_found, db, [])"
proof -
  have "query_resume db rid (u_id u) = None"
    using assms by (simp add: query_resume_None_iff)
  then show "get_resume rid u db = (Inl not_found, db, [])"
    "er_resume_id rq = rid \<Longrightarrow> enhance_resume_endpoint rq u db now = (Inl not_found, db, [])"
    "get_resume_score e rid u db = (Inl not_found, db, [])"
    "cl_resume_id cr = rid \<Longrightarrow> generate_cover_letter_endpoint e cr u db now = (Inl not_found, db, [])"
    "delete_resume rid u db = (Inl not_found, db, [])"
    by (simp_all add: get_resume_def enhance_resume_endpoint_def get_resume_score_def
        generate_cover_letter_endpoint_def delete_resume_def)
qed

lemma own_rows_only:
  assumes "own_rows (u_id u) db1 = own_rows (u_id u) db2"
  shows "response (get_resume rid u db1) = response (get_resume rid u db2)"
    "response (list_resumes u db1) = response (list_resumes u db2)"
    "response (enhance_resume_endpoint rq u db1 now) = response (enhance_resume_endpoint rq u db2 now)"
    "effects (enhance_resume_endpoint rq u db1 now) = effects (enhance_resume_endpoint rq u db2 now)"
    "response (get_resume_score e rid u db1) = response (get_resume_score e rid u db2)"
    "effects (get_resume_score e rid u db1) = effects (get_resume_score e rid u db2)"
    "response (generate_cover_letter_endpoint e cr u db1 now)
       = response (generate_cover_letter_endpoint e cr u db2 now)"
    "effects (generate_cover_letter_endpoint e cr u db1 now)
       = effects (generate_cover_letter_endpoint e cr u db2 now)"
    "response (delete_resume rid u db1) = response (delete_resume rid u db2)"
proof -
  have q: "query_resume db1 i (u_id u) = query_resume db2 i (u_id u)" for i
    by (simp add: query_resume_own assms)
  have l: "filter (\<lambda>r. r_user_id r = u_id u) (resumes db1)
         = filter (\<lambda>r. r_user_id r = u_id u) (resumes db2)"
    using assms by (simp add: own_rows_def)
  show "response (get_resume rid u db1) = response (get_resume rid u db2)"
    by (simp add: get_resume_def response_def q split: option.splits)
  show "response (list_resumes u db1) = response (list_resumes u db2)"
    by (simp add: list_resumes_def response_def l)
  show "response (enhance_resume_endpoint rq u db1 now) = response (enhance_resume_endpoint rq u db2 now)"
    by (simp add: enhance_resume_endpoint_def response_def q Let_def split: option.splits)
  show "effects (enhance_resume_endpoint rq u db1 now) = effects (enhance_resume_endpoint rq u db2 now)"
    by (simp add: enhance_resume_endpoint_def effects_def q Let_def split: option.splits)
  show "response (get_resume_score e rid u db1) = response (get_resume_score e rid u db2)"
    by (simp add: get_resume_score_def response_def q Let_def split: option.splits sum.splits prod.splits)
  show "effects (get_resume_score e rid u db1) = effects (get_resume_score e rid u db2)"
    by (simp add: get_resume_score_def effects_def q Let_def split: option.splits sum.splits prod.splits)
  show "response (generate_cover_letter_endpoint e cr u db1 now)
       = response (generate_cover_letter_endpoint e cr u db2 now)"
    by (simp add: generate_cover_letter_endpoint_def response_def q Let_def split: option.splits sum.splits)
  show "effects (generate_cover_letter_endpoint e cr u db1 now)
       = effects (generate_cover_letter_endpoint e cr u db2 now)"
    by (simp add: generate_cover_letter_endpoint_def effects_def q Let_def split: option.splits sum.splits)
  show "response (delete_resume rid u db1) = response (delete_resume rid u db2)"
    by (simp add: delete_resume_def response_def q split: option.splits)
qed

text \<open>
  Claim C4: the six resume endpoints \<open>get_resume\<close>, \<open>list_resumes\<close>,
  \<open>enhance_resume_endpoint\<close>, \<open>get_resume_score\<close>,
  \<open>generate_cover_letter_endpoint\<close> and \<open>delete_resume\<close> only return and work on rows
  of the authenticated user. The rows they return belong to the caller; the rows of every
  other user are the same after the call as before; the response and the external calls
  depend on the caller's own rows only, so nothing of another user's row can reach them;
  and an id of which every row belongs to somebody else is answered with 404, with no
  write and no external call.
\<close>

theorem resume_endpoints_scoped:
  "(\<forall>r. response (get_resume rid u db) = Inr r \<longrightarrow>
        r \<in> set (resumes db) \<and> r_id r = rid \<and> r_user_id r = u_id u)
   \<and> (\<forall>rs. response (list_resumes u db) = Inr rs \<longrightarrow>
        set rs = {r \<in> set (resumes db). r_user_id r = u_id u})
   \<and> (\<forall>r. response (enhance_resume_endpoint rq u db now) = Inr r \<longrightarrow>
        r \<in> set (resumes db) \<and> r_id r = er_resume_id rq \<and> r_user_id r = u_id u)
   \<and> others_rows (u_id u) (db_of (get_resume rid u db)) = others_rows (u_id u) db
   \<and> others_rows (u_id u) (db_of (list_resumes u db)) = others_rows (u_id u) db
   \<and> others_rows (u_id u) (db_of (enhance_resume_endpoint rq u db now)) = others_rows (u_id u) db
   \<and> others_rows (u_id u) (db_of (get_resume_score e rid u db)) = others_rows (u_id u) db
   \<and> others_rows (u_id u) (db_of (generate_cover_letter_endpoint e cr u db now))
       = others_rows (u_id u) db
   \<and> others_rows (u_id u) (db_of (delete_resume rid u db)) = others_rows (u_id u) db
   \<and> (\<forall>db'. own_rows (u_id u) db' = own_rows (u_id u) db \<longrightarrow>
          response (get_resume rid u db') = response (get_resume rid u db)
        \<and> response (list_resumes u db') = response (list_resumes u db)
        \<and> response (enhance_resume_endpoint rq u db' now)
            = response (enhance_resume_endpoint rq u db now)
        \<and> effects (enhance_resume_endpoint rq u db' now)
            = effects (enhance_resume_endpoint rq u db now)
        \<and> response (get_resume_score e rid u db') = response (get_resume_score e rid u db)
        \<and> effects (get_resume_score e rid u db') = effects (get_resume_score e rid u db)
        \<and> response (generate_cover_letter_endpoint e cr u db' now)
            = response (generate_cover_letter_endpoint e cr u db now)
        \<and> effects (generate_cover_letter_endpoint e cr u db' now)
            = effects (generate_cover_letter_endpoint e cr u db now)
        \<and> response (delete_resume rid u db') = response (delete_resume rid u db))
   \<and> ((\<forall>r\<in>set (resumes db). r_id r = rid \<longrightarrow> r_user_id r \<noteq> u_id u) \<longrightarrow>
          get_resume rid u db = (Inl (HTTPException 404 (Msg ''Resume not found'')), db, [])
        \<and> enhance_resume_endpoint \<lparr> er_resume_id = rid, er_job_description = jd \<rparr> u db now
            = (Inl (HTTPException 404 (Msg ''Resume not found'')), db, [])
        \<and> get_resume_score e rid u db
            = (Inl (HTTPException 404 (Msg ''Resume not found'')), db, [])
        \<and> generate_cover_letter_endpoint e
              \<lparr> cl_resume_id = rid, cl_job_description = jd, cl_company_name = company,
                cl_position = pos \<rparr> u db now
            = (Inl (HTTPException 404 (Msg ''Resume not found'')), db, [])
        \<and> delete_resume rid u db
            = (Inl (HTTPException 404 (Msg ''Resume not found'')), db, []))"
proof -
  have a: "\<forall>r. response (get_resume rid u db) = Inr r \<longrightarrow>
        r \<in> set (resumes db) \<and> r_id r = rid \<and> r_user_id r = u_id u"
    using returned_rows_owned(1) by blast
  have b: "\<forall>rs. response (list_resumes u db) = Inr rs \<longrightarrow>
        set rs = {r \<in> set (resumes db). r_user_id r = u_id u}"
    using returned_rows_owned(3) by blast
  have c: "\<forall>r. response (enhance_resume_endpoint rq u db now) = Inr r \<longrightarrow>
        r \<in> set (resumes db) \<and> r_id r = er_resume_id rq \<and> r_user_id r = u_id u"
    using returned_rows_owned(2) by blast
  have d: "\<forall>db'. own_rows (u_id u) db' = own_rows (u_id u) db \<longrightarrow>
          response (get_resume rid u db') = response (get_resume rid u db)
        \<and> response (list_resumes u db') = response (list_resumes u db)
        \<and> response (enhance_resume_endpoint rq u db' now)
            = response (enhance_resume_endpoint rq u db now)
        \<and> effects (enhance_resume_endpoint rq u db' now)
            = effects (enhance_resume_endpoint rq u db now)
        \<and> response (get_resume_score e rid u db') = response (get_resume_score e rid u db)
        \<and> effects (get_resume_score e rid u db') = effects (get_resume_score e rid u db)
        \<and> response (generate_cover_letter_endpoint e cr u db' now)
            = response (generate_cover_letter_endpoint e cr u db now)
        \<and> effects (generate_cover_letter_endpoint e cr u db' now)
            = effects (generate_cover_letter_endpoint e cr u db now)
        \<and> response (delete_resume rid u db') = response (delete_resume rid u db)"
    by (intro allI impI conjI) (erule own_rows_only)+
  have f: "(\<forall>r\<in>set (resumes db). r_id r = rid \<longrightarrow> r_user_id r \<noteq> u_id u) \<longrightarrow>
          get_resume rid u db = (Inl (HTTPException 404 (Msg ''Resume not found'')), db, [])
        \<and> enhance_resume_endpoint \<lparr> er_resume_id = rid, er_job_description = jd \<rparr> u db now
            = (Inl (HTTPException 404 (Msg ''Resume not found'')), db, [])
        \<and> get_resume_score e rid u db
            = (Inl (HTTPException 404 (Msg ''Resume not found'')), db, [])
        \<and> generate_cover_letter_endpoint e
              \<lparr> cl_resume_id = rid, cl_job_description = jd, cl_company_name = company,
                cl_position = pos \<rparr> u db now
            = (Inl (HTTPException 404 (Msg ''Resume not found'')), db, [])
        \<and> delete_resume rid u db
            = (Inl (HTTPException 404 (Msg ''Resume not found'')), db, [])"
    using foreign_id_404 [of db rid u] by (simp add: not_found_def)
  show ?thesis
    apply (intro conjI)
    apply (rule a)
    apply (rule b)
    apply (rule c)
    apply (rule others_untouched)+
    apply (rule d)
    apply (rule f)
    done
qed

theorem resume_endpoints_scoped_witness:
  "response (get_resume 1 alice db0) = Inr cv_alice
   \<and> cv_alice \<in> set (resumes db0) \<and> r_id cv_alice = 1 \<and> r_user_id cv_alice = u_id alice
   \<and> response (list_resumes alice db0) = Inr [cv_zero, cv_alice]
   \<and> set [cv_zero, cv_alice] = {r \<in> set (resumes db0). r_user_id r = u_id alice}
   \<and> others_rows (u_id alice) (db_of (delete_resume 1 alice db0)) = [cv_bob]
   \<and> others_rows (u_id alice) (db_of (get_resume_score env0 1 alice db0)) = [cv_bob]
   \<and> response (get_resume 1 alice (db0 \<lparr> resumes := [cv_alice, cv_zero] \<rparr>))
       = response (get_resume 1 alice db0)
   \<and> get_resume 2 alice db0 = (Inl (HTTPException 404 (Msg ''Resume not found'')), db0, [])
   \<and> enhance_resume_endpoint \<lparr> er_resume_id = 2, er_job_description = None \<rparr> alice db0 500
       = (Inl (HTTPException 404 (Msg ''Resume not found'')), db0, [])
   \<and> get_resume_score env0 2 alice db0
       = (Inl (HTTPException 404 (Msg ''Resume not found'')), db0, [])
   \<and> generate_cover_letter_endpoint env0
         \<lparr> cl_resume_id = 2, cl_job_description = None, cl_company_name = ''Acme'',
           cl_position = ''Engineer'' \<rparr> alice db0 500
       = (Inl (HTTPException 404 (Msg ''Resume not found'')), db0, [])
   \<and> delete_resume 2 alice db0 = (Inl (HTTPException 404 (Msg ''Resume not found'')), db0, [])"
proof -
  let ?rq = "\<lparr> er_resume_id = 1, er_job_description = None \<rparr>"
  let ?cr = "\<lparr> cl_resume_id = 1, cl_job_description = None, cl_company_name = ''Acme'',
              cl_position = ''Engineer'' \<rparr>"
  note own = resume_endpoints_scoped [where rid = 1 and u = alice and db = db0 and rq = ?rq
      and now = 500 and e = env0 and cr = ?cr and jd = None and company = "''Acme''"
      and pos = "''Engineer''"]
  note foreign = resume_endpoints_scoped [where rid = 2 and u = alice and db = db0 and rq = ?rq
      and now = 500 and e = env0 and cr = ?cr and jd = None and company = "''Acme''"
      and pos = "''Engineer''"]
  have g: "response (get_resume 1 alice db0) = Inr cv_alice"
    by (simp add: response_def get_resume_def query_resume_def first_def resume_filter_def
        db0_def alice_def cv_alice_def)
  have l: "response (list_resumes alice db0) = Inr [cv_zero, cv_alice]"
    by (simp add: response_def list_resumes_def order_by_desc_def db0_def alice_def
        cv_alice_def cv_bob_def cv_zero_def)
  have o: "others_rows (u_id alice) db0 = [cv_bob]"
    by (simp add: others_rows_def db0_def alice_def cv_alice_def cv_bob_def cv_zero_def)
  have s: "own_rows (u_id alice) (db0 \<lparr> resumes := [cv_alice, cv_zero] \<rparr>)
             = own_rows (u_id alice) db0"
    by (simp add: own_rows_def db0_def alice_def cv_alice_def cv_bob_def cv_zero_def)
  have h: "\<forall>r\<in>set (resumes db0). r_id r = 2 \<longrightarrow> r_user_id r \<noteq> u_id alice"
    by (simp add: db0_def alice_def cv_alice_def cv_bob_def cv_zero_def)
  have 1: "cv_alice \<in> set (resumes db0) \<and> r_id cv_alice = 1 \<and> r_user_id cv_alice = u_id alice"
    by (rule own [THEN conjunct1, THEN spec, THEN mp, OF g])
  have 2: "set [cv_zero, cv_alice] = {r \<in> set (resumes db0). r_user_id r = u_id alice}"
    by (rule own [THEN conjunct2, THEN conjunct1, THEN spec, THEN mp, OF l])
  have 3: "others_rows (u_id alice) (db_of (delete_resume 1 alice db0)) = [cv_bob]"
    by (rule trans [OF own [THEN conjunct2, THEN conjunct2, THEN conjunct2, THEN conjunct2, THEN conjunct2, THEN conjunct2, THEN conjunct2, THEN conjunct2, THEN conjunct1] o])
  have 4: "others_rows (u_id alice) (db_of (get_resume_score env0 1 alice db0)) = [cv_bob]"
    by (rule trans [OF own [THEN conjunct2, THEN conjunct2, THEN conjunct2, THEN conjunct2, THEN conjunct2, THEN conjunct2, THEN conjunct1] o])
  have 5: "response (get_resume 1 alice (db0 \<lparr> resumes := [cv_alice, cv_zero] \<rparr>))
       = response (get_resume 1 alice db0)"
    by (rule own [THEN conjunct2, THEN conjunct2, THEN conjunct2, THEN conjunct2, THEN conjunct2, THEN conjunct2, THEN conjunct2, THEN conjunct2, THEN conjunct2, THEN conjunct1, THEN spec, THEN mp, OF s, THEN conjunct1])
  note 6 = foreign [THEN conjunct2, THEN conjunct2, THEN conjunct2, THEN conjunct2, THEN conjunct2, THEN conjunct2, THEN conjunct2, THEN conjunct2, THEN conjunct2, THEN conjunct2, THEN mp, OF h]
  show ?thesis
    by (intro conjI g l 1 [THEN conjunct1] 1 [THEN conjunct2, THEN conjunct1]
        1 [THEN conjunct2, THEN conjunct2] 2 3 4 5 6 [THEN conjunct1]
        6 [THEN conjunct2, THEN conjunct1] 6 [THEN conjunct2, THEN conjunct2, THEN conjunct1]
        6 [THEN conjunct2, THEN conjunct2, THEN conjunct2, THEN conjunct1]
        6 [THEN conjunct2, THEN conjunct2, THEN conjunct2, THEN conjunct2])
qed

section \<open>The counter of a one-time user never goes below zero\<close>

lemma db_of_except_Exception: "db_of (except_Exception out) = db_of out"
  by (cases out) (simp add: except_Exception_def db_of_def split: sum.splits)

lemma set_store_user: "v \<in> set (store_user u us) \<Longrightarrow> v \<in> set us \<or> v = u"
  by (auto simp: store_user_def split: if_splits)

lemma counter_ok_store:
  assumes "counter_ok db"
    and "subscription_type u = ONE_TIME \<longrightarrow> 0 \<le> remaining_enhancements u"
  shows "counter_ok (db \<lparr> users := store_user u (users db) \<rparr>)"
  using assms by (auto simp: counter_ok_def list_all_iff dest!: set_store_user)

lemma users_upload: "users (db_of (upload_resume rd u db now)) = users db"
  by (simp add: upload_resume_def db_of_def Let_def)

lemma users_enhance:
  "users (db_of (enhance_resume_endpoint rq u db now)) = users db
   \<or> subscription_type u = ONE_TIME \<and> 0 < remaining_enhancements u
     \<and> users (db_of (enhance_resume_endpoint rq u db now))
         = store_user (u \<lparr> remaining_enhancements := remaining_enhancements u - 1 \<rparr>) (users db)"
  by (simp add: enhance_resume_endpoint_def db_of_def Let_def split: option.splits)

lemma users_read_only:
  "users (db_of (get_resume_score e rid u db)) = users db"
  "users (db_of (generate_cover_letter_endpoint e cr u db now)) = users db"
  "users (db_of (list_resumes u db)) = users db"
  "users (db_of (get_resume rid u db)) = users db"
  "users (db_of (delete_resume rid u db)) = users db"
  "users (db_of (analyze_resume e request u db now)) = users db"
  "users (db_of (get_resume_history u db)) = users db"
  "users (db_of (get_download_stats u db)) = users db"
  "users (snd (reset_password e address db now)) = users db"
  unfolding analyze_resume_def get_resume_history_def get_download_stats_def
    db_of_except_Exception
  by (simp_all add: db_of_def get_resume_score_def generate_cover_letter_endpoint_def
      list_resumes_def get_resume_def delete_resume_def reset_password_def Let_def
      split: option.splits sum.splits prod.splits)

lemma counter_ok_stored:
  assumes "counter_ok db"
    and "subscription_type u = ONE_TIME \<longrightarrow> 0 \<le> remaining_enhancements u"
    and "users db' = store_user u (users db)"
  shows "counter_ok db'"
  using counter_ok_store [OF assms(1,2)] assms(3) by (simp add: counter_ok_def)

lemma counter_ok_grant: "counter_ok db \<Longrightarrow> counter_ok (grant_pro_access u db)"
  by (rule counter_ok_stored [where u = "u \<lparr> subscription_type := PRO, remaining_enhancements := - 1 \<rparr>"])
    (simp_all add: grant_pro_access_def)

lemma db_developer_code:
  "db_of (validate_developer_code e request db) = db
   \<or> (\<exists>u. api_get_current_user e request db = Inr u
         \<and> db_of (validate_developer_code e request db) = grant_pro_access u db)"
  unfolding validate_developer_code_def db_of_except_Exception
  by (simp add: db_of_def split: sum.splits)

lemma users_signup:
  "users (db_of (signup e user_data new_id counter_default db)) = users db
   \<or> (\<exists>row. subscription_type row = FREE
         \<and> users (db_of (signup e user_data new_id counter_default db)) = users db @ [row])"
  by (simp add: signup_def db_of_def Let_def split: option.splits)

lemma counter_ok_enhance:
  assumes "counter_ok db"
  shows "counter_ok (db_of (enhance_resume_endpoint rq u db now))"
  using users_enhance [of rq u db now]
proof (elim disjE conjE)
  assume "users (db_of (enhance_resume_endpoint rq u db now)) = users db"
  with assms show ?thesis
    by (simp add: counter_ok_def)
next
  assume pos: "0 < remaining_enhancements u"
    and stored: "users (db_of (enhance_resume_endpoint rq u db now))
         = store_user (u \<lparr> remaining_enhancements := remaining_enhancements u - 1 \<rparr>) (users db)"
  show ?thesis
    by (rule counter_ok_stored [OF assms _ stored]) (simp add: pos)
qed

lemma counter_ok_developer_code:
  assumes "counter_ok db"
  shows "counter_ok (db_of (validate_developer_code e request db))"
  using db_developer_code [of e request db] assms
  by (elim disjE exE conjE) (simp_all add: counter_ok_grant)

lemma counter_ok_signup:
  assumes "counter_ok db"
  shows "counter_ok (db_of (signup e user_data new_id counter_default db))"
  using users_signup [of e user_data new_id counter_default db] assms
  by (elim disjE exE conjE) (simp_all add: counter_ok_def)

lemma counter_ok_db_after: "counter_ok db \<Longrightarrow> counter_ok (db_after e now db c)"
proof (cases c)
  case (Enhance rq u)
  then show "counter_ok db \<Longrightarrow> counter_ok (db_after e now db c)"
    by (simp add: counter_ok_enhance)
next
  case (DeveloperCode request)
  then show "counter_ok db \<Longrightarrow> counter_ok (db_after e now db c)"
    by (simp add: counter_ok_developer_code)
next
  case (Signup user_data new_id counter_default)
  then show "counter_ok db \<Longrightarrow> counter_ok (db_after e now db c)"
    by (simp add: counter_ok_signup)
qed (simp_all add: counter_ok_def users_upload users_read_only)

text \<open>
  Claim C10: if the counter of every one-time user is at least zero, it still is after any
  endpoint of the two routers, whatever the request and whatever the collaborators answer.
  \<open>upload_resume\<close> leaves the users table as it is; \<open>enhance_resume_endpoint\<close> either
  leaves it as it is or, for a one-time user with a positive counter, stores the counter
  less one; \<open>validate_developer_code\<close> either writes nothing or stores the counter
  \<open>-1\<close> together with the tier \<open>PRO\<close>.
\<close>

theorem counter_never_negative:
  "(counter_ok db \<longrightarrow> counter_ok (db_after e now db c))
   \<and> users (db_after e now db (Upload resume_data u)) = users db
   \<and> (users (db_after e now db (Enhance rq u)) = users db
       \<or> subscription_type u = ONE_TIME \<and> 0 < remaining_enhancements u
         \<and> users (db_after e now db (Enhance rq u))
             = store_user (u \<lparr> remaining_enhancements := remaining_enhancements u - 1 \<rparr>)
                 (users db))
   \<and> (db_after e now db (DeveloperCode request) = db
       \<or> (\<exists>v. api_get_current_user e request db = Inr v
             \<and> db_after e now db (DeveloperCode request) = grant_pro_access v db))
   \<and> users (grant_pro_access v db)
       = store_user (v \<lparr> subscription_type := PRO, remaining_enhancements := - 1 \<rparr>) (users db)"
proof (intro conjI)
  show "counter_ok db \<longrightarrow> counter_ok (db_after e now db c)"
    by (simp add: counter_ok_db_after)
  show "users (db_after e now db (Upload resume_data u)) = users db"
    by (simp add: users_upload)
  show "users (db_after e now db (Enhance rq u)) = users db
       \<or> subscription_type u = ONE_TIME \<and> 0 < remaining_enhancements u
         \<and> users (db_after e now db (Enhance rq u))
             = store_user (u \<lparr> remaining_enhancements := remaining_enhancements u - 1 \<rparr>)
                 (users db)"
    using users_enhance [of rq u db now] by simp
  show "db_after e now db (DeveloperCode request) = db
       \<or> (\<exists>v. api_get_current_user e request db = Inr v
             \<and> db_after e now db (DeveloperCode request) = grant_pro_access v db)"
    using db_developer_code [of e request db] by simp
  show "users (grant_pro_access v db)
       = store_user (v \<lparr> subscription_type := PRO, remaining_enhancements := - 1 \<rparr>) (users db)"
    by (simp add: grant_pro_access_def)
qed

theorem counter_never_negative_witness:
  "counter_ok db0
   \<and> users (db_after env0 500 db0 (Enhance \<lparr> er_resume_id = 1, er_job_description = None \<rparr> alice))
       = [alice \<lparr> remaining_enhancements := 1 \<rparr>, bob]
   \<and> counter_ok (db_after env0 500 db0
         (Enhance \<lparr> er_resume_id = 1, er_job_description = None \<rparr> alice))
   \<and> users (db_after env0 500 db0
         (DeveloperCode \<lparr> request_json = Inr [(''code'', PStr ''dev-code'')], bearer = None \<rparr>))
       = [alice \<lparr> subscription_type := PRO, remaining_enhancements := - 1 \<rparr>, bob]
   \<and> counter_ok (db_after env0 500 db0
         (DeveloperCode \<lparr> request_json = Inr [(''code'', PStr ''dev-code'')], bearer = None \<rparr>))"
proof -
  have ok: "counter_ok db0"
    by (simp add: counter_ok_def db0_def alice_def bob_def)
  have enh: "users (db_after env0 500 db0
         (Enhance \<lparr> er_resume_id = 1, er_job_description = None \<rparr> alice))
       = [alice \<lparr> remaining_enhancements := 1 \<rparr>, bob]"
    by (simp add: db_of_def enhance_resume_endpoint_def query_resume_def first_def
        resume_filter_def store_user_def db0_def alice_def bob_def cv_alice_def)
  have dev: "users (db_after env0 500 db0
         (DeveloperCode \<lparr> request_json = Inr [(''code'', PStr ''dev-code'')], bearer = None \<rparr>))
       = [alice \<lparr> subscription_type := PRO, remaining_enhancements := - 1 \<rparr>, bob]"
    by (simp add: db_of_def validate_developer_code_def except_Exception_def dict_get_def
        grant_pro_access_def first_def store_user_def env0_def db0_def alice_def bob_def)
  show ?thesis
    by (intro conjI ok enh dev
        counter_never_negative [where e = env0 and now = 500, THEN conjunct1, THEN mp, OF ok])
qed

section \<open>Typed errors inside a broad \<open>except\<close>\<close>

text \<open>
  \<open>analyze_resume\<close> and \<open>validate_developer_code\<close> raise their typed exception inside
  \<open>try: ... except Exception\<close>. The handler catches it and raises 500 with the text of
  the caught exception as detail: neither handler can answer 404 or 400.
\<close>

lemma caught_errors_are_500:
  "response (except_Exception out) = Inl ex \<Longrightarrow> \<exists>cause. ex = HTTPException 500 (Str cause)"
  by (cases out) (auto simp: except_Exception_def response_def split: sum.splits)

lemma analyze_resume_never_404:
  "response (analyze_resume e request u db now) \<noteq> Inl (HTTPException 404 d)"
  unfolding analyze_resume_def by (auto dest: caught_errors_are_500)

lemma validate_developer_code_never_400:
  "response (validate_developer_code e request db) \<noteq> Inl (HTTPException 400 d)"
  unfolding validate_developer_code_def by (auto dest: caught_errors_are_500)

text \<open>
  Claim C3 says that \<open>analyze_resume\<close> answers 404 for a resume that does not exist or is
  not the caller's, and \<open>validate_developer_code\<close> answers 400 for an invalid code. On
  \<open>db0\<close>, Alice asks for an analysis of resume 2, which is Bob's, and somebody sends the
  code \<open>guess\<close>, which the validator refuses: both answers are 500.
\<close>

theorem typed_errors_become_500:
  "response (analyze_resume env0 \<lparr> request_json = Inr [(''resume_id'', PInt 2)], bearer = None \<rparr>
               alice db0 500)
     = Inl (HTTPException 500 (Str (HTTPException 404 (Msg ''Resume not found''))))
   \<and> response (validate_developer_code env0
                 \<lparr> request_json = Inr [(''code'', PStr ''guess'')], bearer = None \<rparr> db0)
     = Inl (HTTPException 500 (Str (HTTPException 400 (Msg ''Invalid developer code''))))"
  by (simp add: response_def analyze_resume_def validate_developer_code_def
      except_Exception_def dict_get_def first_def not_found_def env0_def db0_def alice_def
      cv_alice_def cv_bob_def cv_zero_def)

section \<open>The cached score\<close>

text \<open>
  \<open>get_resume_score\<close> tests \<open>not resume.score\<close>: the scorer is called when the row has no
  score and also when the stored score is \<open>0\<close>. A stored score other than zero is
  returned as it is, with no call and no write.
\<close>

lemma score_cache:
  assumes "query_resume db rid (u_id u) = Some r"
  shows "effects (get_resume_score e rid u db) \<noteq> [] \<longleftrightarrow> score r = None \<or> score r = Some 0"
    and "score r \<noteq> None \<Longrightarrow> score r \<noteq> Some 0 \<Longrightarrow>
           get_resume_score e rid u db
             = (Inr \<lparr> sr_score = score r, sr_feedback = feedback r,
                      sr_learning_suggestions = learning_suggestions r \<rparr>, db, [])"
  using assms
  by (auto simp: get_resume_score_def effects_def truthy_num_def Let_def
      split: option.splits sum.splits prod.splits)

text \<open>
  Claim C6 says that the scorer is called if and only if the row has no cached score, and
  that a score already present is returned without a call and without a write. Resume 3 of
  \<open>db0\<close> has the stored score \<open>0\<close>: the handler calls the scorer again, answers with
  the new score and overwrites the row.
\<close>

theorem zero_score_is_rescored:
  "query_resume db0 3 (u_id alice) = Some cv_zero
   \<and> score cv_zero = Some 0
   \<and> effects (get_resume_score env0 3 alice db0) = [Call_score_resume ''x'' None]
   \<and> response (get_resume_score env0 3 alice db0)
       = Inr \<lparr> sr_score = Some 70, sr_feedback = Some ''solid'',
               sr_learning_suggestions = Some ''learn SQL'' \<rparr>
   \<and> resumes (db_of (get_resume_score env0 3 alice db0))
       = [cv_alice, cv_bob, cv_zero \<lparr> score := Some 70, feedback := Some ''solid'',
                                      learning_suggestions := Some ''learn SQL'' \<rparr>]"
  by (simp add: response_def effects_def db_of_def get_resume_score_def query_resume_def
      first_def resume_filter_def truthy_num_def or_else_def env0_def db0_def alice_def
      cv_alice_def cv_bob_def cv_zero_def)

text \<open>Such a row is what the handler itself stores when the scorer answers \<open>0\<close>.\<close>

lemma zero_score_reachable:
  "resumes (db_of (get_resume_score
       (env0 \<lparr> score_resume := (\<lambda>text jd. Inr (0, ''weak'', ''start over'')) \<rparr>) 1 alice db0))
     = [cv_alice \<lparr> score := Some 0, feedback := Some ''weak'',
                   learning_suggestions := Some ''start over'' \<rparr>, cv_bob, cv_zero]"
  by (simp add: db_of_def get_resume_score_def query_resume_def first_def resume_filter_def
      truthy_num_def or_else_def env0_def db0_def alice_def cv_alice_def cv_bob_def cv_zero_def)

section \<open>Password reset and registered addresses\<close>

text \<open>
  Claim C8 says that \<open>reset_password\<close> answers with the same message whether or not a
  user row has the address. Only the branch of a registered address creates a token, and
  \<open>jwt.encode\<close> raises when the signing key is \<open>None\<close>. In a process started without
  \<open>JWT_SECRET_KEY\<close>, the registered address of Alice ends in \<open>TypeError\<close> and an
  address that nobody registered gets the message: the two responses differ.
\<close>

theorem reset_password_counterexample:
  "users db0 = [alice, bob]
   \<and> email alice = ''alice@example.com'' \<and> email bob = ''bob@example.com''
   \<and> SECRET_KEY env_no_key = None
   \<and> fst (reset_password env_no_key ''alice@example.com'' db0 1000)
       = Inl (TypeError ''Expected a string value'')
   \<and> fst (reset_password env_no_key ''nobody@example.com'' db0 1000) = Inr reset_message"
  by (simp add: reset_password_def create_access_token_def jwt_encode_def first_def
      env_no_key_def env0_def db0_def alice_def bob_def)

text \<open>
  Claim C8, amended: when the signing key is configured, \<open>reset_password\<close> answers with
  the same message whether or not a user row has the address, and writes nothing; the
  responses of any two runs are equal.
\<close>

theorem reset_password_uniform:
  assumes "SECRET_KEY e = Some key"
  shows "reset_password e address db now = (Inr reset_message, db)
       \<and> fst (reset_password e address db now) = fst (reset_password e address' db' now')"
proof -
  have "reset_password e a d n = (Inr reset_message, d)" for a d n
    by (simp add: reset_password_def create_access_token_def jwt_encode_def assms Let_def
        split: option.splits)
  then show ?thesis
    by simp
qed

theorem reset_password_uniform_witness:
  "SECRET_KEY env0 = Some ''secret''
   \<and> first (\<lambda>u. email u = ''alice@example.com'') (users db0) = Some alice
   \<and> first (\<lambda>u. email u = ''nobody@example.com'') (users db0) = None
   \<and> reset_password env0 ''alice@example.com'' db0 1000 = (Inr reset_message, db0)
   \<and> reset_password env0 ''nobody@example.com'' db0 1000 = (Inr reset_message, db0)
   \<and> fst (reset_password env0 ''alice@example.com'' db0 1000)
       = fst (reset_password env0 ''nobody@example.com'' db0 1000)"
proof -
  have k: "SECRET_KEY env0 = Some ''secret''"
    by (simp add: env0_def)
  have r: "first (\<lambda>u. email u = ''alice@example.com'') (users db0) = Some alice"
    "first (\<lambda>u. email u = ''nobody@example.com'') (users db0) = None"
    by (simp_all add: first_def db0_def alice_def bob_def)
  note a = reset_password_uniform [OF k, of "''alice@example.com''" db0 1000
      "''nobody@example.com''" db0 1000]
  note b = reset_password_uniform [OF k, of "''nobody@example.com''" db0 1000
      "''nobody@example.com''" db0 1000]
  show ?thesis
    by (intro conjI k r a [THEN conjunct1] b [THEN conjunct1] a [THEN conjunct2])
qed

section \<open>When authentication fails\<close>

text \<open>
  \<open>signin\<close> raises 401 if and only if no user row has the email or the password does not
  verify against the hash of the row found; its only other exception is that of
  \<open>jwt.encode\<close> without a key. \<open>get_current_user\<close> raises 401 if and only if the body
  of its \<open>try\<close> ends normally and no user row has the subject as its id; every exception
  that leaves the body ends in \<open>AttributeError\<close>.
\<close>

lemma signin_401_iff:
  "signin e username pw db now = Inl (HTTPException 401 (Msg ''Incorrect email or password''))
     \<longleftrightarrow> (\<forall>u\<in>set (users db). email u \<noteq> username)
        \<or> (\<exists>u. first (\<lambda>u. email u = username) (users db) = Some u
                \<and> \<not> verify_password e pw (password u))"
  by (auto simp: signin_def first_None_iff create_access_token_def jwt_encode_def Let_def
      split: option.splits dest: first_SomeD)

lemma signin_errors:
  "signin e username pw db now = Inl ex \<Longrightarrow>
     ex = HTTPException 401 (Msg ''Incorrect email or password'')
     \<or> SECRET_KEY e = None \<and> ex = TypeError ''Expected a string value''"
  by (auto simp: signin_def create_access_token_def jwt_encode_def Let_def
      split: option.splits if_splits)

lemma get_current_user_try_raises:
  "get_current_user_try e tok now = Inl raised \<Longrightarrow>
     get_current_user e tok db now = Inl (AttributeError ''module jwt has no attribute JWTError'')"
  by (simp add: get_current_user_def except_jwt_JWTError_def)

lemma get_current_user_try_cases:
  "get_current_user_try e tok now = Inr sub
     \<longleftrightarrow> (\<exists>payload. jwt_decode tok (SECRET_KEY e) now = Inr payload
            \<and> dict_get payload ''sub'' = Some sub)"
  by (auto simp: get_current_user_try_def split: sum.splits option.splits)

lemma jwt_decode_ok_iff:
  "jwt_decode tok key now = Inr payload
     \<longleftrightarrow> (\<exists>k. tok = Signed k payload \<and> key = Some k
            \<and> (map_of payload ''exp'' = None
               \<or> (\<exists>ex. map_of payload ''exp'' = Some (PInt ex) \<and> now < ex)))"
  by (auto simp: jwt_decode_def split: token.splits option.splits pyval.splits if_splits)

lemma get_current_user_401_iff:
  "get_current_user e tok db now = Inl credentials_exception
     \<longleftrightarrow> (\<exists>sub. get_current_user_try e tok now = Inr sub
            \<and> (\<forall>u\<in>set (users db). PStr (u_id u) \<noteq> sub))"
  by (auto simp: get_current_user_def except_jwt_JWTError_def credentials_exception_def
      first_None_iff split: sum.splits option.splits dest: first_SomeD)

text \<open>
  Claim C5 says that \<open>get_current_user\<close> answers 401 for a token that fails to decode
  (invalid signature or expired), for a payload without \<open>sub\<close> and for a subject that
  matches no user row. On \<open>db0\<close> at time 1000: a string that is no token, a token signed
  with another key, an expired token and a token without \<open>sub\<close> all end in
  \<open>AttributeError\<close>, which is not a 401. Only the unknown subject, which is checked after
  the \<open>try\<close>, gives 401, and a good token gives the user.
\<close>

theorem token_failures_are_not_401:
  "get_current_user env0 (Malformed ''junk'') db0 1000
       = Inl (AttributeError ''module jwt has no attribute JWTError'')
   \<and> get_current_user env0 (Signed ''other key'' [(''sub'', PStr ''u1''), (''exp'', PInt 2000)])
        db0 1000 = Inl (AttributeError ''module jwt has no attribute JWTError'')
   \<and> get_current_user env0 (Signed ''secret'' [(''sub'', PStr ''u1''), (''exp'', PInt 900)])
        db0 1000 = Inl (AttributeError ''module jwt has no attribute JWTError'')
   \<and> get_current_user env0 (Signed ''secret'' [(''exp'', PInt 2000)])
        db0 1000 = Inl (AttributeError ''module jwt has no attribute JWTError'')
   \<and> get_current_user env0 (Signed ''secret'' [(''sub'', PStr ''u9''), (''exp'', PInt 2000)])
        db0 1000 = Inl (HTTPException 401 (Msg ''Could not validate credentials''))
   \<and> get_current_user env0 (Signed ''secret'' [(''sub'', PStr ''u1''), (''exp'', PInt 2000)])
        db0 1000 = Inr alice"
  by (simp add: get_current_user_def get_current_user_try_def except_jwt_JWTError_def
      jwt_decode_def dict_get_def credentials_exception_def first_def env0_def db0_def
      alice_def bob_def)

section \<open>Access tokens and their window\<close>

text \<open>
  The token that \<open>signin\<close> issues at time \<open>now\<close> carries the expiry \<open>now\<close> plus
  \<open>ACCESS_TOKEN_EXPIRE_MINUTES\<close> minutes. From that instant on \<open>jwt.decode\<close> raises
  \<open>ExpiredSignatureError\<close>, and \<open>get_current_user\<close> ends in \<open>AttributeError\<close>.
\<close>

lemma signin_issues_expiry:
  assumes "signin e username pw db now = Inr tk"
  shows "\<exists>user. first (\<lambda>u. email u = username) (users db) = Some user
           \<and> SECRET_KEY e \<noteq> None
           \<and> access_token tk = Signed (the (SECRET_KEY e))
               [(''sub'', PStr (u_id user)),
                (''exp'', PInt (now + ACCESS_TOKEN_EXPIRE_MINUTES * 60))]"
  using assms
  by (auto simp: signin_def create_access_token_def jwt_encode_def timedelta_minutes_def
      ACCESS_TOKEN_EXPIRE_MINUTES_def Let_def split: option.splits if_splits)

lemma signin_expiry_claim:
  assumes "signin e username pw db now = Inr tk"
  shows "dict_get (claims_of (access_token tk)) ''exp''
           = Some (PInt (now + ACCESS_TOKEN_EXPIRE_MINUTES * 60))"
  using signin_issues_expiry [OF assms]
  by (auto simp: claims_of_def dict_get_def)

lemma signin_token_after_expiry:
  assumes "signin e username pw db now = Inr tk"
    and "now + ACCESS_TOKEN_EXPIRE_MINUTES * 60 \<le> later"
  shows "get_current_user e (access_token tk) db' later
           = Inl (AttributeError ''module jwt has no attribute JWTError'')"
proof -
  from signin_issues_expiry [OF assms(1)] assms(2)
  have "get_current_user_try e (access_token tk) later = Inl ExpiredSignatureError"
    by (auto simp: get_current_user_try_def jwt_decode_def)
  then show ?thesis
    by (rule get_current_user_try_raises)
qed

text \<open>
  Claim C7 says that the token issued by \<open>signin\<close> expires 30 minutes after issuance and
  that \<open>get_current_user\<close> then rejects it with 401. Alice signs in at time 1000: the
  token carries the expiry 2800, which is 1000 plus 1800 seconds. At time 2801
  \<open>get_current_user\<close> does not answer 401: it ends in \<open>AttributeError\<close>. At time 2799
  the token still resolves to Alice.
\<close>

theorem expired_token_is_not_401:
  "signin env0 ''alice@example.com'' ''wonder'' db0 1000
     = Inr \<lparr> access_token = Signed ''secret'' [(''sub'', PStr ''u1''), (''exp'', PInt 2800)],
             token_type = ''bearer'' \<rparr>
   \<and> get_current_user env0 (Signed ''secret'' [(''sub'', PStr ''u1''), (''exp'', PInt 2800)])
        db0 2801 = Inl (AttributeError ''module jwt has no attribute JWTError'')
   \<and> get_current_user env0 (Signed ''secret'' [(''sub'', PStr ''u1''), (''exp'', PInt 2800)])
        db0 2799 = Inr alice"
  by (simp add: signin_def first_def verify_password_def create_access_token_def
      jwt_encode_def timedelta_minutes_def ACCESS_TOKEN_EXPIRE_MINUTES_def
      get_current_user_def get_current_user_try_def except_jwt_JWTError_def jwt_decode_def
      dict_get_def env0_def db0_def alice_def bob_def)

end
